theory Spec2Isabelle
  imports Complex_Main "HOL-Library.Log_Nat"
begin

section \<open>Vietnam personal income tax calculator\<close>

text \<open>
  The repository holds the same calculation twice: a Go terminal wizard
  (\<^verbatim>\<open>packages/cli/ui/tui.go\<close>) and a TypeScript web page
  (\<^verbatim>\<open>packages/app/src/pages/index.tsx\<close>). Both are embedded here, function by
  function. Definitions taken from the TypeScript file carry the suffix \<open>_ts\<close> where the
  Go file has a function of the same name.

  Numbers. Both programs compute on IEEE-754 doubles (\<^verbatim>\<open>float64\<close>, \<^verbatim>\<open>number\<close>). The
  embedding has two layers. The first follows the data model of the specification (``all
  monetary amounts are non-negative real numbers'') and computes on \<^typ>\<open>real\<close>: rounding,
  overflow, NaN and signed zero are not modelled there. The one non-finite value the
  sources write down, the \<^verbatim>\<open>Infinity\<close> width of the last TypeScript bracket, is a
  constructor of its own. The second layer renders the TypeScript functions on binary64
  itself, with rounding to nearest, overflow to \<^verbatim>\<open>Infinity\<close> and NaN; its definitions
  carry the suffix \<open>64\<close>, and it decides the statements that turn on rounding or overflow.
\<close>

subsection \<open>Go: domain types and constants\<close>

datatype Period = Monthly | Annual

datatype SalaryMode = Gross | Net

record TaxBracket =
  Limit :: real
  Rate :: real

record TaxBreakdown =
  Rate :: real
  Taxable :: real
  Tax :: real

definition PersonalDeduction :: real where
  "PersonalDeduction = 11000000"

definition DependentDeduction :: real where
  "DependentDeduction = 4400000"

definition InsuranceCap :: real where
  "InsuranceCap = 36000000"

text \<open>
  The two rate tables are Go maps; \<^verbatim>\<open>sumRates\<close> ranges over one in an unspecified order.
  On real numbers the order does not change the sum, so a map is written as the list of
  its entries.
\<close>

definition EmployeeInsurance :: "(string \<times> real) list" where
  "EmployeeInsurance = [(''BHXH'', 8 / 100), (''BHYT'', 15 / 1000), (''BHTN'', 1 / 100)]"

definition EmployerInsurance :: "(string \<times> real) list" where
  "EmployerInsurance = [(''BHXH'', 175 / 1000), (''BHYT'', 3 / 100), (''BHTN'', 1 / 100)]"

definition TaxBrackets :: "TaxBracket list" where
  "TaxBrackets =
    [\<lparr>Limit = 5000000, Rate = 5 / 100\<rparr>,
     \<lparr>Limit = 5000000, Rate = 10 / 100\<rparr>,
     \<lparr>Limit = 8000000, Rate = 15 / 100\<rparr>,
     \<lparr>Limit = 14000000, Rate = 20 / 100\<rparr>,
     \<lparr>Limit = 20000000, Rate = 25 / 100\<rparr>,
     \<lparr>Limit = 28000000, Rate = 30 / 100\<rparr>,
     \<lparr>Limit = 1000000000000000000, Rate = 35 / 100\<rparr>]"

subsection \<open>Go: pure logic\<close>

definition toMonthly :: "real \<Rightarrow> Period \<Rightarrow> real" where
  "toMonthly v p = (if p = Annual then v / 12 else v)"

text \<open>\<^verbatim>\<open>for _, v := range r { s += v }\<close>, starting from \<^verbatim>\<open>s := 0.0\<close>.\<close>

fun sumRates_loop :: "(string \<times> real) list \<Rightarrow> real \<Rightarrow> real" where
  "sumRates_loop [] s = s"
| "sumRates_loop ((k, v) # r) s = sumRates_loop r (s + v)"

definition sumRates :: "(string \<times> real) list \<Rightarrow> real" where
  "sumRates r = sumRates_loop r 0"

definition clampInsuranceBase :: "real \<Rightarrow> bool \<Rightarrow> real" where
  "clampInsuranceBase gross enabled =
     (if \<not> enabled then 0
      else if gross > InsuranceCap then InsuranceCap
      else gross)"

text \<open>The file's own \<^verbatim>\<open>min\<close> and \<^verbatim>\<open>max\<close> on \<^verbatim>\<open>float64\<close>.\<close>

definition min_go :: "real \<Rightarrow> real \<Rightarrow> real" where
  "min_go a b = (if a < b then a else b)"

definition max_go :: "real \<Rightarrow> real \<Rightarrow> real" where
  "max_go a b = (if a > b then a else b)"

text \<open>
  The loop of \<^verbatim>\<open>calculateTax\<close> over the bracket slice. Its state is the three locals
  \<^verbatim>\<open>out\<close>, \<^verbatim>\<open>remain\<close> and \<^verbatim>\<open>total\<close> (written \<open>total'\<close>, the plain name being taken
  in HOL); the function returns them as they stand when the loop ends, either by
  \<^verbatim>\<open>break\<close> or because the slice is exhausted.
\<close>

fun calculateTax_loop ::
  "TaxBracket list \<Rightarrow> TaxBreakdown list \<Rightarrow> real \<Rightarrow> real \<Rightarrow> TaxBreakdown list \<times> real \<times> real" where
  "calculateTax_loop [] out remain total' = (out, remain, total')"
| "calculateTax_loop (b # bs) out remain total' =
     (if remain \<le> 0 then (out, remain, total')
      else
        let apply = min_go (Limit b) remain;
            tax = apply * TaxBracket.Rate b
        in calculateTax_loop bs
             (out @ [\<lparr>Rate = TaxBracket.Rate b, Taxable = apply, Tax = tax\<rparr>])
             (remain - apply)
             (total' + tax))"

definition calculateTax :: "real \<Rightarrow> TaxBreakdown list \<times> real" where
  "calculateTax taxable =
     (let (out, remain, total') = calculateTax_loop TaxBrackets [] taxable 0
      in (out, total'))"

text \<open>
  \<^verbatim>\<open>for i := 0; i < 20; i++ { ... }\<close> of \<^verbatim>\<open>solveGrossFromNet\<close>: the counter \<^verbatim>\<open>i\<close> and the
  local \<^verbatim>\<open>gross\<close> are the loop state.
\<close>

function solveGrossFromNet_loop :: "real \<Rightarrow> int \<Rightarrow> bool \<Rightarrow> nat \<Rightarrow> real \<Rightarrow> real" where
  "solveGrossFromNet_loop targetNet dependents insurance i gross =
     (if i < 20 then
        let base = clampInsuranceBase gross insurance;
            ins = base * sumRates EmployeeInsurance;
            deductions = PersonalDeduction + real_of_int dependents * DependentDeduction + ins;
            taxable = max_go 0 (gross - deductions);
            tax = snd (calculateTax taxable);
            net = gross - ins - tax
        in solveGrossFromNet_loop targetNet dependents insurance (i + 1) (gross + (targetNet - net))
      else gross)"
  by pat_completeness auto
termination
  by (relation "measure (\<lambda>(targetNet, dependents, insurance, i, gross). 20 - i)") auto

declare solveGrossFromNet_loop.simps [simp del]

definition solveGrossFromNet :: "real \<Rightarrow> int \<Rightarrow> bool \<Rightarrow> real" where
  "solveGrossFromNet targetNet dependents insurance =
     solveGrossFromNet_loop targetNet dependents insurance 0 targetNet"

subsection \<open>TypeScript: types and constants\<close>

text \<open>
  \<^verbatim>\<open>type Period = 'monthly' | 'annual'\<close> and \<^verbatim>\<open>type SalaryMode = 'gross' | 'net'\<close>.
\<close>

datatype Period_ts = Monthly_ts | Annual_ts

datatype SalaryMode_ts = Gross_ts | Net_ts

text \<open>A bracket width is a finite number or \<^verbatim>\<open>Infinity\<close>.\<close>

datatype limit_ts = Finite real | Infinity

record TaxBracket_ts =
  limit :: limit_ts
  rate :: real

record TaxBreakdownItem =
  rate :: real
  taxable :: real
  tax :: real

definition PERSONAL_DEDUCTION :: real where
  "PERSONAL_DEDUCTION = 11000000"

definition DEPENDENT_DEDUCTION :: real where
  "DEPENDENT_DEDUCTION = 4400000"

definition INSURANCE_CAP :: real where
  "INSURANCE_CAP = 36000000"

definition EMPLOYEE_INSURANCE :: "(string \<times> real) list" where
  "EMPLOYEE_INSURANCE = [(''BHXH'', 8 / 100), (''BHYT'', 15 / 1000), (''BHTN'', 1 / 100)]"

definition EMPLOYER_INSURANCE :: "(string \<times> real) list" where
  "EMPLOYER_INSURANCE = [(''BHXH'', 175 / 1000), (''BHYT'', 3 / 100), (''BHTN'', 1 / 100)]"

definition TAX_BRACKETS :: "TaxBracket_ts list" where
  "TAX_BRACKETS =
    [\<lparr>limit = Finite 5000000, rate = 5 / 100\<rparr>,
     \<lparr>limit = Finite 5000000, rate = 1 / 10\<rparr>,
     \<lparr>limit = Finite 8000000, rate = 15 / 100\<rparr>,
     \<lparr>limit = Finite 14000000, rate = 2 / 10\<rparr>,
     \<lparr>limit = Finite 20000000, rate = 25 / 100\<rparr>,
     \<lparr>limit = Finite 28000000, rate = 3 / 10\<rparr>,
     \<lparr>limit = Infinity, rate = 35 / 100\<rparr>]"

subsection \<open>TypeScript: pure functions\<close>

definition toMonthly_ts :: "real \<Rightarrow> Period_ts \<Rightarrow> real" where
  "toMonthly_ts value period = (if period = Annual_ts then value / 12 else value)"

text \<open>\<^verbatim>\<open>Object.values(rates).reduce((a, b) => a + b, 0)\<close>.\<close>

definition sumRates_ts :: "(string \<times> real) list \<Rightarrow> real" where
  "sumRates_ts rates = foldl (\<lambda>a b. a + b) 0 (map snd rates)"

definition clampInsuranceBase_ts :: "real \<Rightarrow> bool \<Rightarrow> real" where
  "clampInsuranceBase_ts gross enabled = (if enabled then min gross INSURANCE_CAP else 0)"

text \<open>\<^verbatim>\<open>Math.min(bracket.limit, remaining)\<close>, whose first argument may be \<^verbatim>\<open>Infinity\<close>.\<close>

definition Math_min :: "limit_ts \<Rightarrow> real \<Rightarrow> real" where
  "Math_min l r = (case l of Infinity \<Rightarrow> r | Finite x \<Rightarrow> min x r)"

text \<open>
  The \<^verbatim>\<open>for (const bracket of TAX_BRACKETS)\<close> loop of \<^verbatim>\<open>calculateTaxBreakdown\<close>, on its
  locals \<^verbatim>\<open>remaining\<close>, \<^verbatim>\<open>totalTax\<close> and \<^verbatim>\<open>breakdown\<close>.
\<close>

fun calculateTaxBreakdown_loop ::
  "TaxBracket_ts list \<Rightarrow> real \<Rightarrow> real \<Rightarrow> TaxBreakdownItem list
     \<Rightarrow> real \<times> real \<times> TaxBreakdownItem list" where
  "calculateTaxBreakdown_loop [] remaining totalTax breakdown = (remaining, totalTax, breakdown)"
| "calculateTaxBreakdown_loop (bracket # brackets) remaining totalTax breakdown =
     (if remaining \<le> 0 then (remaining, totalTax, breakdown)
      else
        let applied = Math_min (limit bracket) remaining;
            tax = applied * TaxBracket_ts.rate bracket
        in calculateTaxBreakdown_loop brackets
             (remaining - applied)
             (totalTax + tax)
             (breakdown @ [\<lparr>rate = TaxBracket_ts.rate bracket, taxable = applied, tax = tax\<rparr>]))"

text \<open>The returned object \<^verbatim>\<open>{ breakdown, totalTax }\<close> is the pair of its two fields.\<close>

definition calculateTaxBreakdown :: "real \<Rightarrow> TaxBreakdownItem list \<times> real" where
  "calculateTaxBreakdown taxableIncome =
     (let (remaining, totalTax, breakdown) =
            calculateTaxBreakdown_loop TAX_BRACKETS taxableIncome 0 []
      in (breakdown, totalTax))"

text \<open>
  \<^verbatim>\<open>dependents\<close> is a \<^verbatim>\<open>number\<close> in the TypeScript file (read from the URL or a form
  field), so it is a real here and an integer only where a theorem says so.
\<close>

function solveGrossFromNet_ts_loop :: "real \<Rightarrow> real \<Rightarrow> bool \<Rightarrow> nat \<Rightarrow> real \<Rightarrow> real" where
  "solveGrossFromNet_ts_loop targetNet dependents insuranceEnabled i gross =
     (if i < 20 then
        let insuranceBase = clampInsuranceBase_ts gross insuranceEnabled;
            insurance = insuranceBase * sumRates_ts EMPLOYEE_INSURANCE;
            deductions = PERSONAL_DEDUCTION + dependents * DEPENDENT_DEDUCTION + insurance;
            taxable = max 0 (gross - deductions);
            totalTax = snd (calculateTaxBreakdown taxable);
            net = gross - insurance - totalTax
        in solveGrossFromNet_ts_loop targetNet dependents insuranceEnabled (i + 1)
             (gross + (targetNet - net))
      else gross)"
  by pat_completeness auto
termination
  by (relation "measure (\<lambda>(targetNet, dependents, insuranceEnabled, i, gross). 20 - i)") auto

declare solveGrossFromNet_ts_loop.simps [simp del]

definition solveGrossFromNet_ts :: "real \<Rightarrow> real \<Rightarrow> bool \<Rightarrow> real" where
  "solveGrossFromNet_ts targetNet dependents insuranceEnabled =
     max 0 (solveGrossFromNet_ts_loop targetNet dependents insuranceEnabled 0 targetNet)"

subsection \<open>Binary64 arithmetic\<close>
















subsection \<open>TypeScript on binary64: constants and pure functions\<close>

















subsection \<open>TypeScript: the computed result\<close>

text \<open>
  A JavaScript division by zero does not raise: it gives \<^verbatim>\<open>NaN\<close> or an infinity. Neither
  is a real number, so the quotient is \<open>None\<close> there.
\<close>

definition js_div :: "real \<Rightarrow> real \<Rightarrow> real option" where
  "js_div a b = (if b = 0 then None else Some (a / b))"

text \<open>
  The body of \<^verbatim>\<open>useMemo\<close> that computes \<^verbatim>\<open>data\<close> from the five pieces of state. A number
  is truthy when it is not zero.
\<close>

record Data =
  grossMonthly :: real
  insuranceBase :: real
  employeeInsurance :: real
  employerInsurance :: real
  personalDeduction :: real
  dependentDeduction :: real
  totalDeductions :: real
  taxableIncome :: real
  breakdown :: "TaxBreakdownItem list"
  totalTax :: real
  netMonthly :: real
  effectiveTaxRate :: "real option"
  totalLaborCost :: real

definition data :: "real \<Rightarrow> real \<Rightarrow> Period_ts \<Rightarrow> bool \<Rightarrow> SalaryMode_ts \<Rightarrow> Data" where
  "data income dependents period insuranceEnabled salaryMode =
     (let grossBase =
            (if salaryMode = Gross_ts then income
             else solveGrossFromNet_ts income dependents insuranceEnabled);
          grossMonthly = toMonthly_ts grossBase period;
          insuranceBase = clampInsuranceBase_ts grossMonthly insuranceEnabled;
          employeeInsurance = insuranceBase * sumRates_ts EMPLOYEE_INSURANCE;
          employerInsurance = insuranceBase * sumRates_ts EMPLOYER_INSURANCE;
          personalDeduction = PERSONAL_DEDUCTION;
          dependentDeduction = dependents * DEPENDENT_DEDUCTION;
          totalDeductions = personalDeduction + dependentDeduction + employeeInsurance;
          taxableIncome = max 0 (grossMonthly - totalDeductions);
          (breakdown, totalTax) = calculateTaxBreakdown taxableIncome;
          netMonthly = grossMonthly - employeeInsurance - totalTax
      in \<lparr>grossMonthly = grossMonthly,
          insuranceBase = insuranceBase,
          employeeInsurance = employeeInsurance,
          employerInsurance = employerInsurance,
          personalDeduction = personalDeduction,
          dependentDeduction = dependentDeduction,
          totalDeductions = totalDeductions,
          taxableIncome = taxableIncome,
          breakdown = breakdown,
          totalTax = totalTax,
          netMonthly = netMonthly,
          effectiveTaxRate = (if grossMonthly \<noteq> 0 then js_div totalTax grossMonthly else Some 0),
          totalLaborCost = grossMonthly + employerInsurance\<rparr>)"



subsection \<open>Go: the wizard's result\<close>

text \<open>
  Of the wizard's \<^verbatim>\<open>model\<close> only the answers are kept (the current step and the text
  input widget play no part in the result). \<^verbatim>\<open>resultView\<close> renders a string from the
  locals it computes; the record \<open>Result\<close> holds those locals. The dependent count is a Go
  \<^verbatim>\<open>int\<close> that is only ever converted to \<^verbatim>\<open>float64\<close>, never computed with, so it is an
  integer without a bound here.
\<close>

record model =
  mode :: SalaryMode
  period :: Period
  income :: real
  dependents :: int
  insurance :: bool

record Result =
  gross :: real
  base :: real
  empIns :: real
  deductions :: real
  taxable :: real
  breakdown :: "TaxBreakdown list"
  tax :: real
  net :: real

definition resultView :: "model \<Rightarrow> Result" where
  "resultView m =
     (let gross =
            (if mode m = Gross then toMonthly (income m) (period m)
             else solveGrossFromNet (income m) (dependents m) (insurance m));
          base = clampInsuranceBase gross (insurance m);
          empIns = base * sumRates EmployeeInsurance;
          deductions = PersonalDeduction + real_of_int (dependents m) * DependentDeduction + empIns;
          taxable = max_go 0 (gross - deductions);
          (breakdown, tax) = calculateTax taxable;
          net = gross - empIns - tax
      in \<lparr>gross = gross, base = base, empIns = empIns, deductions = deductions,
          taxable = taxable, breakdown = breakdown, tax = tax, net = net\<rparr>)"

subsection \<open>Auxiliary definitions for the proofs\<close>

text \<open>
  The two tax loops differ only in how a bracket's width is written. For the proofs both
  bracket tables are mapped to one form, a list of pairs of a width (\<open>None\<close> for the
  unbounded one) and a rate, and the total tax, the insurance contribution and the
  forward map from gross to net are written once over that form. The lemmas below tie
  each of these back to the Go and the TypeScript functions.
\<close>

definition cap :: "real option \<Rightarrow> real \<Rightarrow> real" where
  "cap w r = (case w of None \<Rightarrow> r | Some l \<Rightarrow> min l r)"

fun tax_of :: "(real option \<times> real) list \<Rightarrow> real \<Rightarrow> real" where
  "tax_of [] r = 0"
| "tax_of ((w, q) # bs) r =
     (if r \<le> 0 then 0 else cap w r * q + tax_of bs (r - cap w r))"

definition brackets_ok :: "real \<Rightarrow> (real option \<times> real) list \<Rightarrow> bool" where
  "brackets_ok L bs = (0 \<le> L \<and> (\<forall>(w, q) \<in> set bs. 0 \<le> q \<and> q \<le> L \<and> (\<forall>l. w = Some l \<longrightarrow> 0 \<le> l)))"

definition abs_go :: "TaxBracket \<Rightarrow> real option \<times> real" where
  "abs_go b = (Some (Limit b), TaxBracket.Rate b)"

definition abs_ts :: "TaxBracket_ts \<Rightarrow> real option \<times> real" where
  "abs_ts b = ((case limit b of Finite x \<Rightarrow> Some x | Infinity \<Rightarrow> None), TaxBracket_ts.rate b)"

definition table_go :: "(real option \<times> real) list" where
  "table_go = map abs_go TaxBrackets"

definition table_ts :: "(real option \<times> real) list" where
  "table_ts = map abs_ts TAX_BRACKETS"

definition low_brackets :: "(real option \<times> real) list" where
  "low_brackets = [(Some 5000000, 5 / 100), (Some 5000000, 10 / 100),
                   (Some 8000000, 15 / 100), (Some 14000000, 20 / 100)]"

fun width_sum :: "(real option \<times> real) list \<Rightarrow> real" where
  "width_sum [] = 0"
| "width_sum ((w, q) # bs) = (case w of None \<Rightarrow> 0 | Some l \<Rightarrow> l) + width_sum bs"

definition ins_of :: "bool \<Rightarrow> real \<Rightarrow> real" where
  "ins_of on g = (if on then min g 36000000 * (105 / 1000) else 0)"

definition charge_of :: "(real option \<times> real) list \<Rightarrow> real \<Rightarrow> bool \<Rightarrow> real \<Rightarrow> real" where
  "charge_of tab d on g =
     ins_of on g + tax_of tab (max 0 (g - (11000000 + d * 4400000 + ins_of on g)))"

definition net_of :: "(real option \<times> real) list \<Rightarrow> real \<Rightarrow> bool \<Rightarrow> real \<Rightarrow> real" where
  "net_of tab d on g = g - charge_of tab d on g"

definition step_of :: "(real option \<times> real) list \<Rightarrow> real \<Rightarrow> real \<Rightarrow> bool \<Rightarrow> real \<Rightarrow> real" where
  "step_of tab T d on g = T + charge_of tab d on g"

definition taxable_of :: "real \<Rightarrow> bool \<Rightarrow> real \<Rightarrow> real" where
  "taxable_of d on g = max 0 (g - (11000000 + d * 4400000 + ins_of on g))"

text \<open>
  The breakdown lines the Go loop appends and the \<^verbatim>\<open>remain\<close> it ends with, without the
  accumulators.
\<close>

fun lines_of :: "TaxBracket list \<Rightarrow> real \<Rightarrow> TaxBreakdown list" where
  "lines_of [] r = []"
| "lines_of (b # bs) r =
     (if r \<le> 0 then []
      else \<lparr>Rate = TaxBracket.Rate b, Taxable = min (Limit b) r, Tax = min (Limit b) r * TaxBracket.Rate b\<rparr>
             # lines_of bs (r - min (Limit b) r))"

fun remain_of :: "TaxBracket list \<Rightarrow> real \<Rightarrow> real" where
  "remain_of [] r = r"
| "remain_of (b # bs) r = (if r \<le> 0 then r else remain_of bs (r - min (Limit b) r))"






section \<open>Lemmas\<close>

lemma brackets_ok_Cons:
  "brackets_ok L ((w, q) # bs) = (0 \<le> q \<and> q \<le> L \<and> (\<forall>l. w = Some l \<longrightarrow> 0 \<le> l) \<and> brackets_ok L bs)"
  by (auto simp: brackets_ok_def)

lemma tax_of_nonpos: "r \<le> 0 \<Longrightarrow> tax_of bs r = 0"
  by (cases bs) auto

lemma cap_bounds: "0 \<le> r \<Longrightarrow> (\<forall>l. w = Some l \<longrightarrow> 0 \<le> l) \<Longrightarrow> 0 \<le> cap w r \<and> cap w r \<le> r"
  by (cases w) (auto simp: cap_def)

lemma cap_mono: "r1 \<le> r2 \<Longrightarrow> cap w r1 \<le> cap w r2 \<and> r1 - cap w r1 \<le> r2 - cap w r2"
  by (cases w) (auto simp: cap_def min_def)

lemma tax_of_lipschitz:
  "brackets_ok L bs \<Longrightarrow> r1 \<le> r2 \<Longrightarrow>
     tax_of bs r1 \<le> tax_of bs r2 \<and> tax_of bs r2 - tax_of bs r1 \<le> L * (r2 - r1)"
proof (induction bs arbitrary: r1 r2)
  case Nil
  then show ?case by (simp add: brackets_ok_def)
next
  case (Cons b bs)
  obtain w q where b: "b = (w, q)" by (cases b)
  from Cons.prems(1) b have q: "0 \<le> q" "q \<le> L" and w: "\<forall>l. w = Some l \<longrightarrow> 0 \<le> l"
    and ok: "brackets_ok L bs"
    by (simp_all add: brackets_ok_Cons)
  have L: "0 \<le> L" using q by linarith
  show ?case
  proof (cases "r2 \<le> 0")
    case True
    with Cons.prems(2) show ?thesis using L by (simp add: b)
  next
    case r2: False
    then have r2pos: "0 \<le> r2" by simp
    define a2 where "a2 = cap w r2"
    have a2: "0 \<le> a2" "a2 \<le> r2" using cap_bounds[OF r2pos w] by (simp_all add: a2_def)
    have t2: "tax_of (b # bs) r2 = a2 * q + tax_of bs (r2 - a2)"
      using r2 by (simp add: b a2_def)
    show ?thesis
    proof (cases "r1 \<le> 0")
      case True
      then have t1: "tax_of (b # bs) r1 = 0" by (simp add: b)
      have ih: "tax_of bs 0 \<le> tax_of bs (r2 - a2) \<and> tax_of bs (r2 - a2) - tax_of bs 0 \<le> L * (r2 - a2 - 0)"
        using Cons.IH[OF ok, of 0 "r2 - a2"] a2 by simp
      have z: "tax_of bs 0 = 0" by (simp add: tax_of_nonpos)
      have m1: "0 \<le> a2 * q" using a2 q by simp
      have m2: "a2 * q \<le> a2 * L" using a2 q by (intro mult_left_mono) simp_all
      have m3: "L * r2 \<le> L * (r2 - r1)" using L True by (simp add: mult_left_mono)
      have m4: "L * (r2 - a2 - 0) = L * r2 - a2 * L" by (simp add: algebra_simps)
      show ?thesis using ih z m1 m2 m3 m4 t1 t2 by linarith
    next
      case r1: False
      then have r1pos: "0 \<le> r1" by simp
      define a1 where "a1 = cap w r1"
      have t1: "tax_of (b # bs) r1 = a1 * q + tax_of bs (r1 - a1)"
        using r1 by (simp add: b a1_def)
      have mono: "a1 \<le> a2" "r1 - a1 \<le> r2 - a2"
        using cap_mono[OF Cons.prems(2), of w] by (simp_all add: a1_def a2_def)
      have ih: "tax_of bs (r1 - a1) \<le> tax_of bs (r2 - a2) \<and>
                tax_of bs (r2 - a2) - tax_of bs (r1 - a1) \<le> L * ((r2 - a2) - (r1 - a1))"
        using Cons.IH[OF ok mono(2)] .
      have m1: "0 \<le> (a2 - a1) * q" using mono q by simp
      have m2: "(a2 - a1) * q \<le> (a2 - a1) * L" using mono q by (intro mult_left_mono) simp_all
      have e1: "a2 * q - a1 * q = (a2 - a1) * q" by (simp add: algebra_simps)
      have e2: "L * ((r2 - a2) - (r1 - a1)) = L * (r2 - r1) - (a2 - a1) * L" by (simp add: algebra_simps)
      show ?thesis using ih m1 m2 e1 e2 t1 t2 by linarith
    qed
  qed
qed

lemma min_go_eq: "min_go a b = min a b"
  by (simp add: min_go_def min_def)

lemma max_go_eq: "max_go a b = max a b"
  by (simp add: max_go_def max_def)

lemma Math_min_eq: "Math_min (limit b) r = cap (fst (abs_ts b)) r"
  by (simp add: Math_min_def cap_def abs_ts_def split: limit_ts.splits)

lemma calculateTax_loop_total:
  "snd (snd (calculateTax_loop bs out r t)) = t + tax_of (map abs_go bs) r"
  by (induction bs arbitrary: out r t) (simp_all add: abs_go_def cap_def min_go_eq Let_def)

lemma calculateTax_total: "snd (calculateTax t) = tax_of (map abs_go TaxBrackets) t"
  using calculateTax_loop_total[of TaxBrackets "[]" t 0]
  by (auto simp: calculateTax_def split: prod.splits)

lemma calculateTaxBreakdown_loop_total:
  "fst (snd (calculateTaxBreakdown_loop bs r t out)) = t + tax_of (map abs_ts bs) r"
proof (induction bs arbitrary: out r t)
  case Nil
  show ?case by simp
next
  case (Cons b bs)
  have "abs_ts b = (fst (abs_ts b), TaxBracket_ts.rate b)"
    by (simp add: abs_ts_def)
  then show ?case
    using Cons.IH by (simp add: Math_min_eq Let_def) (metis tax_of.simps(2) add.assoc)
qed

lemma calculateTaxBreakdown_total:
  "snd (calculateTaxBreakdown t) = tax_of (map abs_ts TAX_BRACKETS) t"
  using calculateTaxBreakdown_loop_total[of TAX_BRACKETS t 0 "[]"]
  by (auto simp: calculateTaxBreakdown_def split: prod.splits)

lemma table_go_eq:
  "table_go = low_brackets @ [(Some 20000000, 25 / 100), (Some 28000000, 30 / 100),
                              (Some 1000000000000000000, 35 / 100)]"
  by (simp add: table_go_def TaxBrackets_def abs_go_def low_brackets_def)

lemma table_ts_eq:
  "table_ts = low_brackets @ [(Some 20000000, 25 / 100), (Some 28000000, 30 / 100),
                              (None, 35 / 100)]"
  by (simp add: table_ts_def TAX_BRACKETS_def abs_ts_def low_brackets_def)

lemma table_go_ok: "brackets_ok (35 / 100) table_go"
  by (simp add: table_go_eq low_brackets_def brackets_ok_def)

lemma table_ts_ok: "brackets_ok (35 / 100) table_ts"
  by (simp add: table_ts_eq low_brackets_def brackets_ok_def)

lemma low_brackets_ok: "brackets_ok (20 / 100) low_brackets"
  by (simp add: low_brackets_def brackets_ok_def)

lemma tax_of_prefix:
  "\<forall>(w, q) \<in> set bs. \<exists>l. w = Some l \<and> 0 \<le> l \<Longrightarrow> r \<le> width_sum bs \<Longrightarrow>
     tax_of (bs @ cs) r = tax_of bs r"
proof (induction bs arbitrary: r)
  case Nil
  then show ?case by (simp add: tax_of_nonpos)
next
  case (Cons b bs)
  obtain w q where b: "b = (w, q)" by (cases b)
  from Cons.prems(1) b obtain l where l: "w = Some l" "0 \<le> l" by auto
  have ws: "0 \<le> width_sum bs" using Cons.prems(1)
    by (induction bs) auto
  have "r - cap w r \<le> width_sum bs"
    using Cons.prems(2) l ws by (simp add: b cap_def min_def)
  then have "tax_of (bs @ cs) (r - cap w r) = tax_of bs (r - cap w r)"
    using Cons.IH Cons.prems(1) by simp
  then show ?case by (simp add: b)
qed

lemma tax_low:
  assumes "tab = low_brackets @ cs" and "r \<le> 32000000"
  shows "tax_of tab r = tax_of low_brackets r"
  unfolding assms(1)
  by (rule tax_of_prefix) (use assms(2) in \<open>simp_all add: low_brackets_def\<close>)

lemma sumRates_EmployeeInsurance: "sumRates EmployeeInsurance = 105 / 1000"
  by (simp add: sumRates_def EmployeeInsurance_def)

lemma sumRates_EmployerInsurance: "sumRates EmployerInsurance = 215 / 1000"
  by (simp add: sumRates_def EmployerInsurance_def)

lemma sumRates_ts_EMPLOYEE: "sumRates_ts EMPLOYEE_INSURANCE = 105 / 1000"
  by (simp add: sumRates_ts_def EMPLOYEE_INSURANCE_def)


lemma clampInsuranceBase_eq: "clampInsuranceBase g on = (if on then min g 36000000 else 0)"
  by (simp add: clampInsuranceBase_def InsuranceCap_def min_def)

lemma clampInsuranceBase_ts_eq: "clampInsuranceBase_ts g on = (if on then min g 36000000 else 0)"
  by (simp add: clampInsuranceBase_ts_def INSURANCE_CAP_def)

lemma go_ins: "clampInsuranceBase g on * sumRates EmployeeInsurance = ins_of on g"
  by (simp add: clampInsuranceBase_eq sumRates_EmployeeInsurance ins_of_def)

lemma ts_ins: "clampInsuranceBase_ts g on * sumRates_ts EMPLOYEE_INSURANCE = ins_of on g"
  by (simp add: clampInsuranceBase_ts_eq sumRates_ts_EMPLOYEE ins_of_def)

lemma solveGrossFromNet_loop_step:
  "solveGrossFromNet_loop T d on i g =
     (if i < 20 then solveGrossFromNet_loop T d on (i + 1) (step_of table_go T (real_of_int d) on g)
      else g)"
  by (subst solveGrossFromNet_loop.simps)
     (simp add: Let_def go_ins calculateTax_total max_go_eq step_of_def charge_of_def
        table_go_def PersonalDeduction_def DependentDeduction_def)

lemma solveGrossFromNet_ts_loop_step:
  "solveGrossFromNet_ts_loop T d on i g =
     (if i < 20 then solveGrossFromNet_ts_loop T d on (i + 1) (step_of table_ts T d on g)
      else g)"
  by (subst solveGrossFromNet_ts_loop.simps)
     (simp add: Let_def ts_ins calculateTaxBreakdown_total step_of_def charge_of_def
        table_ts_def PERSONAL_DEDUCTION_def DEPENDENT_DEDUCTION_def)

lemma solveGrossFromNet_loop_funpow:
  "i \<le> 20 \<Longrightarrow> solveGrossFromNet_loop T d on i g = (step_of table_go T (real_of_int d) on ^^ (20 - i)) g"
proof (induction "20 - i" arbitrary: i g)
  case 0
  then show ?case by (subst solveGrossFromNet_loop_step) simp
next
  case (Suc n)
  then have i: "i < 20" and n: "n = 20 - (i + 1)" and le: "i + 1 \<le> 20" by simp_all
  have "20 - i = Suc (20 - (i + 1))" using i by simp
  then show ?case
    using Suc.hyps(1)[OF n le] i
    by (subst solveGrossFromNet_loop_step) (simp add: funpow_swap1)
qed

lemma solveGrossFromNet_ts_loop_funpow:
  "i \<le> 20 \<Longrightarrow> solveGrossFromNet_ts_loop T d on i g = (step_of table_ts T d on ^^ (20 - i)) g"
proof (induction "20 - i" arbitrary: i g)
  case 0
  then show ?case by (subst solveGrossFromNet_ts_loop_step) simp
next
  case (Suc n)
  then have i: "i < 20" and n: "n = 20 - (i + 1)" and le: "i + 1 \<le> 20" by simp_all
  have "20 - i = Suc (20 - (i + 1))" using i by simp
  then show ?case
    using Suc.hyps(1)[OF n le] i
    by (subst solveGrossFromNet_ts_loop_step) (simp add: funpow_swap1)
qed

lemma solveGrossFromNet_funpow:
  "solveGrossFromNet T d on = (step_of table_go T (real_of_int d) on ^^ 20) T"
  by (simp add: solveGrossFromNet_def solveGrossFromNet_loop_funpow)

lemma solveGrossFromNet_ts_funpow:
  "solveGrossFromNet_ts T d on = max 0 ((step_of table_ts T d on ^^ 20) T)"
  by (simp add: solveGrossFromNet_ts_def solveGrossFromNet_ts_loop_funpow)

lemma resultView_net:
  "Result.net (resultView m) = net_of table_go (real_of_int (dependents m)) (insurance m) (Result.gross (resultView m))"
  by (simp add: resultView_def Let_def split_beta go_ins calculateTax_total max_go_eq net_of_def
        charge_of_def table_go_def PersonalDeduction_def DependentDeduction_def)

lemma resultView_gross:
  "Result.gross (resultView m) =
     (if mode m = Gross then toMonthly (income m) (period m)
      else solveGrossFromNet (income m) (dependents m) (insurance m))"
  by (simp add: resultView_def Let_def split_beta)

lemma data_netMonthly:
  "netMonthly (data inc d p on sm) = net_of table_ts d on (grossMonthly (data inc d p on sm))"
  by (simp add: data_def Let_def split_beta ts_ins calculateTaxBreakdown_total net_of_def
        charge_of_def table_ts_def PERSONAL_DEDUCTION_def DEPENDENT_DEDUCTION_def)

lemma data_grossMonthly:
  "grossMonthly (data inc d p on sm) =
     toMonthly_ts (if sm = Gross_ts then inc else solveGrossFromNet_ts inc d on) p"
  by (simp add: data_def Let_def split_beta)

lemma charge_of_alt: "charge_of tab d on g = ins_of on g + tax_of tab (taxable_of d on g)"
  by (simp add: charge_of_def taxable_of_def)

lemma ins_of_mono:
  "g1 \<le> g2 \<Longrightarrow> ins_of on g1 \<le> ins_of on g2 \<and> ins_of on g2 - ins_of on g1 \<le> 105 / 1000 * (g2 - g1)"
  by (auto simp: ins_of_def min_def)

lemma taxable_of_mono:
  "g1 \<le> g2 \<Longrightarrow> taxable_of d on g1 \<le> taxable_of d on g2 \<and>
     taxable_of d on g2 - taxable_of d on g1 \<le> (g2 - g1) - (ins_of on g2 - ins_of on g1)"
  using ins_of_mono[of g1 g2 on] by (auto simp: taxable_of_def max_def)

lemma tax_of_nonneg: "brackets_ok L tab \<Longrightarrow> 0 \<le> tax_of tab r"
proof (cases "r \<le> 0")
  case True
  then show ?thesis by (simp add: tax_of_nonpos)
next
  case False
  assume "brackets_ok L tab"
  from tax_of_lipschitz[OF this, of 0 r] False show ?thesis
    by (simp add: tax_of_nonpos)
qed

lemma tax_of_le: "brackets_ok L tab \<Longrightarrow> 0 \<le> r \<Longrightarrow> tax_of tab r \<le> L * r"
  using tax_of_lipschitz[of L tab 0 r] by (simp add: tax_of_nonpos)

lemma charge_of_mono:
  assumes "brackets_ok L tab" and "g1 \<le> g2"
  shows "charge_of tab d on g1 \<le> charge_of tab d on g2"
proof -
  have "tax_of tab (taxable_of d on g1) \<le> tax_of tab (taxable_of d on g2)"
    using tax_of_lipschitz[OF assms(1)] taxable_of_mono[OF assms(2)] by blast
  then show ?thesis
    using ins_of_mono[OF assms(2), of on] by (simp add: charge_of_alt)
qed


lemma taxable_of_low:
  assumes "0 \<le> d" and "g \<le> 36000000"
  shows "taxable_of d True g \<le> 32000000"
proof -
  have "0 \<le> d * 4400000" using assms(1) by simp
  then show ?thesis using assms(2) by (simp add: taxable_of_def ins_of_def max_def min_def)
qed

lemma charge_of_lipschitz_low:
  assumes tab: "tab = low_brackets @ cs" and d: "0 \<le> d"
    and le: "g1 \<le> g2" and low: "g2 \<le> 36000000"
  shows "charge_of tab d True g2 - charge_of tab d True g1 \<le> 35 / 100 * (g2 - g1)"
proof -
  have t: "taxable_of d True g1 \<le> taxable_of d True g2"
    and tl: "taxable_of d True g2 - taxable_of d True g1
               \<le> (g2 - g1) - (ins_of True g2 - ins_of True g1)"
    using taxable_of_mono[OF le, of d True] by simp_all
  have i: "ins_of True g2 - ins_of True g1 = 105 / 1000 * (g2 - g1)"
    using le low by (simp add: ins_of_def min_def)
  have l2: "taxable_of d True g2 \<le> 32000000" by (rule taxable_of_low[OF d low])
  then have l1: "taxable_of d True g1 \<le> 32000000" using t by linarith
  have "tax_of tab (taxable_of d True g2) - tax_of tab (taxable_of d True g1)
          = tax_of low_brackets (taxable_of d True g2) - tax_of low_brackets (taxable_of d True g1)"
    by (simp add: tax_low[OF tab l1] tax_low[OF tab l2])
  also have "\<dots> \<le> 20 / 100 * (taxable_of d True g2 - taxable_of d True g1)"
    using tax_of_lipschitz[OF low_brackets_ok t] by simp
  finally show ?thesis
    using tl i le unfolding charge_of_alt by argo
qed

lemma charge_of_lipschitz_high:
  assumes ok: "brackets_ok (35 / 100) tab" and le: "g1 \<le> g2"
    and high: "on \<longrightarrow> 36000000 \<le> g1"
  shows "charge_of tab d on g2 - charge_of tab d on g1 \<le> 35 / 100 * (g2 - g1)"
proof -
  have t: "taxable_of d on g1 \<le> taxable_of d on g2"
    and tl: "taxable_of d on g2 - taxable_of d on g1 \<le> (g2 - g1) - (ins_of on g2 - ins_of on g1)"
    using taxable_of_mono[OF le, of d on] by simp_all
  have i: "ins_of on g2 - ins_of on g1 = 0"
    using le high by (auto simp: ins_of_def min_def)
  have "tax_of tab (taxable_of d on g2) - tax_of tab (taxable_of d on g1)
          \<le> 35 / 100 * (taxable_of d on g2 - taxable_of d on g1)"
    using tax_of_lipschitz[OF ok t] by simp
  then show ?thesis
    using tl i le unfolding charge_of_alt by argo
qed

lemma charge_of_lipschitz:
  assumes ok: "brackets_ok (35 / 100) tab" and tab: "tab = low_brackets @ cs"
    and d: "0 \<le> d" and le: "g1 \<le> g2"
  shows "charge_of tab d on g2 - charge_of tab d on g1 \<le> 35 / 100 * (g2 - g1)"
proof (cases "on \<longrightarrow> 36000000 \<le> g1")
  case True
  then show ?thesis by (rule charge_of_lipschitz_high[OF ok le])
next
  case False
  then have on: "on = True" and g1: "g1 \<le> 36000000" by simp_all
  show ?thesis
  proof (cases "g2 \<le> 36000000")
    case True
    then show ?thesis unfolding on by (rule charge_of_lipschitz_low[OF tab d le])
  next
    case False
    then have g2: "36000000 \<le> g2" by simp
    have a: "charge_of tab d True 36000000 - charge_of tab d True g1 \<le> 35 / 100 * (36000000 - g1)"
      by (rule charge_of_lipschitz_low[OF tab d g1]) simp
    have b: "charge_of tab d True g2 - charge_of tab d True 36000000 \<le> 35 / 100 * (g2 - 36000000)"
      by (rule charge_of_lipschitz_high[OF ok g2]) simp
    from a b show ?thesis unfolding on by argo
  qed
qed

lemma ins_of_bounds:
  assumes "0 \<le> g"
  shows "0 \<le> ins_of on g" and "ins_of on g \<le> 3780000" and "ins_of on g \<le> 105 / 1000 * g"
  using assms by (auto simp: ins_of_def min_def)

lemma taxable_of_bounds:
  assumes "0 \<le> g" and "0 \<le> d"
  shows "0 \<le> taxable_of d on g" and "taxable_of d on g \<le> g - ins_of on g"
proof -
  have "0 \<le> d * 4400000" using assms(2) by simp
  then show "taxable_of d on g \<le> g - ins_of on g"
    using ins_of_bounds(3)[OF assms(1), of on] assms(1) unfolding taxable_of_def by (simp add: max_def)
  show "0 \<le> taxable_of d on g" by (simp add: taxable_of_def)
qed

lemma charge_of_nonneg:
  assumes "brackets_ok L tab" and "0 \<le> g"
  shows "0 \<le> charge_of tab d on g"
  using tax_of_nonneg[OF assms(1), of "taxable_of d on g"] ins_of_bounds(1)[OF assms(2), of on]
  by (simp add: charge_of_alt)

lemma charge_of_le:
  assumes ok: "brackets_ok (35 / 100) tab" and g: "0 \<le> g" and d: "0 \<le> d"
  shows "charge_of tab d on g \<le> 3780000 + 35 / 100 * g"
    and "charge_of tab d on g \<le> ins_of on g + 35 / 100 * (g - ins_of on g)"
proof -
  have t: "0 \<le> taxable_of d on g" "taxable_of d on g \<le> g - ins_of on g"
    using taxable_of_bounds[OF g d, of on] by simp_all
  have "tax_of tab (taxable_of d on g) \<le> 35 / 100 * taxable_of d on g"
    by (rule tax_of_le[OF ok t(1)])
  then show *: "charge_of tab d on g \<le> ins_of on g + 35 / 100 * (g - ins_of on g)"
    using t unfolding charge_of_alt by argo
  show "charge_of tab d on g \<le> 3780000 + 35 / 100 * g"
    using * ins_of_bounds(1,2)[OF g, of on] by argo
qed


lemma iterate_Suc:
  "(step_of tab T d on ^^ Suc n) x = T + charge_of tab d on ((step_of tab T d on ^^ n) x)"
  by (simp only: funpow.simps o_apply step_of_def)

lemma iterate_ge:
  assumes ok: "brackets_ok L tab" and T: "0 \<le> T"
  shows "T \<le> (step_of tab T d on ^^ n) T"
proof (induction n)
  case 0
  show ?case by simp
next
  case (Suc n)
  then have "0 \<le> (step_of tab T d on ^^ n) T" using T by linarith
  from charge_of_nonneg[OF ok this, of d on] show ?case unfolding iterate_Suc by linarith
qed

lemma iterate_delta:
  assumes ok: "brackets_ok (35 / 100) tab" and tab: "tab = low_brackets @ cs"
    and T: "0 \<le> T" and d: "0 \<le> d"
  shows "(step_of tab T d on ^^ n) T \<le> (step_of tab T d on ^^ Suc n) T \<and>
         (step_of tab T d on ^^ Suc n) T - (step_of tab T d on ^^ n) T
           \<le> (35 / 100) ^ n * charge_of tab d on T"
proof (induction n)
  case 0
  show ?case using charge_of_nonneg[OF ok T, of d on] unfolding iterate_Suc by simp
next
  case (Suc n)
  let ?G = "\<lambda>k. (step_of tab T d on ^^ k) T"
  have le: "?G n \<le> ?G (Suc n)" and
    dl: "?G (Suc n) - ?G n \<le> (35 / 100) ^ n * charge_of tab d on T"
    using Suc.IH by simp_all
  have e: "?G (Suc (Suc n)) - ?G (Suc n) = charge_of tab d on (?G (Suc n)) - charge_of tab d on (?G n)"
    unfolding iterate_Suc by simp
  have up: "charge_of tab d on (?G n) \<le> charge_of tab d on (?G (Suc n))"
    by (rule charge_of_mono[OF ok le])
  have lip: "charge_of tab d on (?G (Suc n)) - charge_of tab d on (?G n)
               \<le> 35 / 100 * (?G (Suc n) - ?G n)"
    by (rule charge_of_lipschitz[OF ok tab d le])
  have "35 / 100 * (?G (Suc n) - ?G n) \<le> 35 / 100 * ((35 / 100) ^ n * charge_of tab d on T)"
    using dl by simp
  then have "charge_of tab d on (?G (Suc n)) - charge_of tab d on (?G n)
               \<le> (35 / 100) ^ Suc n * charge_of tab d on T"
    using lip by simp
  then show ?case using up e unfolding power_Suc by linarith
qed

lemma round_trip_bound:
  assumes ok: "brackets_ok (35 / 100) tab" and tab: "tab = low_brackets @ cs"
    and T: "0 \<le> T" and d: "0 \<le> d" and hi: "T \<le> 3700000000"
  shows "\<bar>net_of tab d on ((step_of tab T d on ^^ 20) T) - T\<bar> \<le> 1"
proof -
  let ?G = "\<lambda>k. (step_of tab T d on ^^ k) T"
  have e: "net_of tab d on (?G 20) - T = ?G 20 - ?G (Suc 20)"
    unfolding iterate_Suc net_of_def by simp
  have dl: "?G 20 \<le> ?G (Suc 20)"
    "?G (Suc 20) - ?G 20 \<le> (35 / 100) ^ 20 * charge_of tab d on T"
    using iterate_delta[OF ok tab T d, of 20 on] by simp_all
  have c: "charge_of tab d on T \<le> 3780000 + 35 / 100 * 3700000000"
    using charge_of_le(1)[OF ok T d, of on] hi by linarith
  have "(35 / 100) ^ 20 * charge_of tab d on T
          \<le> (35 / 100) ^ 20 * (3780000 + 35 / 100 * 3700000000 :: real)"
    using c by (intro mult_left_mono) simp_all
  also have "\<dots> \<le> 1" by (simp add: power_divide)
  finally show ?thesis using dl e by linarith
qed

lemma calculateTax_loop_eq:
  "calculateTax_loop bs out r t = (out @ lines_of bs r, remain_of bs r, t + tax_of (map abs_go bs) r)"
  by (induction bs arbitrary: out r t) (simp_all add: abs_go_def cap_def min_go_eq Let_def)

lemma calculateTax_eq: "calculateTax t = (lines_of TaxBrackets t, tax_of table_go t)"
  by (simp add: calculateTax_def calculateTax_loop_eq table_go_def)

lemma lines_of_length: "length (lines_of bs r) \<le> length bs"
  by (induction bs arbitrary: r) simp_all

lemma lines_of_rates:
  "map TaxBreakdown.Rate (lines_of bs r) = take (length (lines_of bs r)) (map TaxBracket.Rate bs)"
  by (induction bs arbitrary: r) simp_all

lemma lines_of_positive:
  "\<forall>b \<in> set bs. 0 < Limit b \<Longrightarrow> l \<in> set (lines_of bs r) \<Longrightarrow> 0 < Taxable l"
  by (induction bs arbitrary: r) (auto split: if_splits)


lemma TaxBrackets_positive: "\<forall>b \<in> set TaxBrackets. 0 < Limit b \<and> 0 \<le> TaxBracket.Rate b"
  by (simp add: TaxBrackets_def)







lemmas eval_simps = eval_nat_numeral net_of_def step_of_def charge_of_def ins_of_def
  table_go_eq table_ts_eq low_brackets_def cap_def taxable_of_def

subsection \<open>Binary64: evaluating the rounding\<close>





































subsection \<open>Binary64: the TypeScript functions without local bindings\<close>










section \<open>Claims\<close>

text \<open>
  An amount is a real number and the dependent count an integer, except in the statements
  about the definitions with the suffix \<open>64\<close>, where an amount is a double. A statement that
  names both programs is the conjunction of the Go and the TypeScript result.
\<close>

text \<open>
  C1. For every taxable income from 0 on, \<^verbatim>\<open>calculateTax\<close> partitions the input exactly:
  the taxable amounts of the breakdown lines add up to the taxable income and the loop
  ends with \<^verbatim>\<open>remain\<close> equal to 0, the last bracket being unbounded. The Go table ends
  with a bracket that is 1e18 wide where the TypeScript table has \<^verbatim>\<open>Infinity\<close>. At a
  taxable income of 2e18 the Go loop runs out of brackets: its seven lines hold the seven
  widths, which add up to 1,000,000,000,080,000,000, and \<^verbatim>\<open>remain\<close> ends at
  999,999,999,920,000,000. The TypeScript loop, at the same income, ends with
  \<^verbatim>\<open>remaining\<close> equal to 0 and lines that add up to 2e18.
\<close>

theorem C1_go_last_bracket_finite:
  "map Taxable (fst (calculateTax 2000000000000000000)) =
     [5000000, 5000000, 8000000, 14000000, 20000000, 28000000, 1000000000000000000] \<and>
   sum_list (map Taxable (fst (calculateTax 2000000000000000000))) = 1000000000080000000 \<and>
   fst (snd (calculateTax_loop TaxBrackets [] 2000000000000000000 0)) = 999999999920000000 \<and>
   map TaxBreakdownItem.taxable (fst (calculateTaxBreakdown 2000000000000000000)) =
     [5000000, 5000000, 8000000, 14000000, 20000000, 28000000, 1999999999920000000] \<and>
   sum_list (map TaxBreakdownItem.taxable (fst (calculateTaxBreakdown 2000000000000000000)))
     = 2000000000000000000 \<and>
   fst (calculateTaxBreakdown_loop TAX_BRACKETS 2000000000000000000 0 []) = 0"
  by (simp add: calculateTax_def TaxBrackets_def min_go_def calculateTaxBreakdown_def
        TAX_BRACKETS_def Math_min_def)

text \<open>
  C2 (as amended). For every target net salary between 0 and 3,700,000,000, every
  dependent count from 0 on and either insurance flag, the forward computation applied to
  the gross salary that \<^verbatim>\<open>solveGrossFromNet\<close> returns gives a net salary within 1 of the
  target. The forward computation is \<^verbatim>\<open>resultView\<close>, respectively \<^verbatim>\<open>data\<close>, on a monthly
  gross input.
\<close>

theorem C2_round_trip_bounded:
  assumes "0 \<le> targetNet" and "targetNet \<le> 3700000000" and "0 \<le> k"
  shows "\<bar>Result.net (resultView \<lparr>mode = Gross, period = Monthly,
             income = solveGrossFromNet targetNet k on, dependents = k, insurance = on\<rparr>)
           - targetNet\<bar> \<le> 1 \<and>
         \<bar>netMonthly (data (solveGrossFromNet_ts targetNet (real_of_int k) on) (real_of_int k)
             Monthly_ts on Gross_ts) - targetNet\<bar> \<le> 1"
proof -
  have d: "0 \<le> real_of_int k" using assms(3) by simp
  have go: "\<bar>net_of table_go (real_of_int k) on
               ((step_of table_go targetNet (real_of_int k) on ^^ 20) targetNet) - targetNet\<bar> \<le> 1"
    by (rule round_trip_bound[OF table_go_ok table_go_eq assms(1) d assms(2)])
  have ts: "\<bar>net_of table_ts (real_of_int k) on
               ((step_of table_ts targetNet (real_of_int k) on ^^ 20) targetNet) - targetNet\<bar> \<le> 1"
    by (rule round_trip_bound[OF table_ts_ok table_ts_eq assms(1) d assms(2)])
  have "0 \<le> (step_of table_ts targetNet (real_of_int k) on ^^ 20) targetNet"
    using iterate_ge[OF table_ts_ok assms(1), where d = "real_of_int k" and on = on and n = 20]
      assms(1) by linarith
  then have clamp: "solveGrossFromNet_ts targetNet (real_of_int k) on =
      (step_of table_ts targetNet (real_of_int k) on ^^ 20) targetNet"
    by (simp add: solveGrossFromNet_ts_funpow)
  show ?thesis
    using go ts
    by (simp add: resultView_net resultView_gross data_netMonthly data_grossMonthly
          toMonthly_def toMonthly_ts_def solveGrossFromNet_funpow clamp)
qed

text \<open>C2 as amended, at the net salary of the first worked scenario.\<close>

theorem C2_round_trip_bounded_witness:
  "(0 :: real) \<le> 17460000 \<and> (17460000 :: real) \<le> 3700000000 \<and> (0 :: int) \<le> 0 \<and>
   \<bar>Result.net (resultView \<lparr>mode = Gross, period = Monthly,
       income = solveGrossFromNet 17460000 0 True, dependents = 0, insurance = True\<rparr>)
     - 17460000\<bar> \<le> 1 \<and>
   \<bar>netMonthly (data (solveGrossFromNet_ts 17460000 (real_of_int 0) True) (real_of_int 0)
       Monthly_ts True Gross_ts) - 17460000\<bar> \<le> 1"
  using C2_round_trip_bounded[of 17460000 0 True] by simp

text \<open>
  C2 as first stated, for every target from 0 on, fails: twenty corrections shrink the
  residual by a factor of \<open>0.35 ^ 20\<close> at best, which no longer brings it under 1 once the
  first residual exceeds about 1.3e9. At a target of 3,800,000,000 with no dependents and
  insurance enabled the net salary recovered is about 1.0035 below the target, in both
  programs.
\<close>

theorem C2_round_trip_counterexample:
  "(0 :: real) \<le> 3800000000 \<and> (0 :: int) \<le> 0 \<and>
   Result.net (resultView \<lparr>mode = Gross, period = Monthly,
       income = solveGrossFromNet 3800000000 0 True, dependents = 0, insurance = True\<rparr>)
     - 3800000000 = - (105226609725839909602757 / 104857600000000000000000) \<and>
   netMonthly (data (solveGrossFromNet_ts 3800000000 0 True) 0 Monthly_ts True Gross_ts)
     - 3800000000 = - (105226609725839909602757 / 104857600000000000000000) \<and>
   \<not> \<bar>- (105226609725839909602757 / 104857600000000000000000 :: real)\<bar> \<le> 1"
proof -
  have go: "(step_of table_go 3800000000 0 True ^^ 20) 3800000000
              = 30559997376767183867243083876711 / 5242880000000000000000"
    by (simp add: eval_simps)
  have ts: "(step_of table_ts 3800000000 0 True ^^ 20) 3800000000
              = 30559997376767183867243083876711 / 5242880000000000000000"
    by (simp add: eval_simps)
  show ?thesis
    by (simp add: resultView_net resultView_gross data_netMonthly data_grossMonthly
          toMonthly_def toMonthly_ts_def solveGrossFromNet_funpow solveGrossFromNet_ts_funpow
          go ts)
       (simp add: eval_simps)
qed

text \<open>
  C3. \<^verbatim>\<open>solveGrossFromNet\<close> starts from the target, runs exactly twenty corrections and
  returns a result clamped to be non-negative. The twenty corrections hold for both
  programs (lemmas \<open>solveGrossFromNet_funpow\<close> and \<open>solveGrossFromNet_ts_funpow\<close>); the
  clamp is in the TypeScript function only. The Go function returns the twentieth iterate
  as it is: for a target of \<open>-1\<close> it returns \<open>-1\<close> without insurance and about \<open>-1.117\<close>
  with it, where the TypeScript function returns 0.
\<close>

theorem C3_go_result_not_clamped:
  "solveGrossFromNet (- 1) 0 False = - 1 \<and>
   solveGrossFromNet (- 1) 0 True
     = - (11715932960893854748570711804366558756863792601 /
          10485760000000000000000000000000000000000000000) \<and>
   solveGrossFromNet_ts (- 1) 0 False = 0 \<and>
   solveGrossFromNet_ts (- 1) 0 True = 0"
  by (simp add: solveGrossFromNet_funpow solveGrossFromNet_ts_funpow eval_simps)




text \<open>
  C5. For a net-mode input with an annual period the income is first divided by 12 and
  the net-to-gross inversion then runs on the monthly target. Neither program does so. At
  an annual net income of 132,000,000 (11,000,000 a month, no dependents, no insurance)
  the inversion of the monthly target gives a gross salary of 11,000,000. The Go
  \<^verbatim>\<open>resultView\<close> never calls \<^verbatim>\<open>toMonthly\<close> in net mode and solves for 132,000,000 as if it
  were a monthly target (gross about 182,000,000, the same as for a monthly period). The
  TypeScript \<^verbatim>\<open>data\<close> solves for 132,000,000 first and divides the gross salary found by
  12 (about 15,166,667 a month, for a net salary of about 14,958,333 where 11,000,000 was
  asked for).
\<close>

theorem C5_period_not_normalised_before_solving:
  "solveGrossFromNet (toMonthly 132000000 Annual) 0 False = 11000000 \<and>
   Result.gross (resultView \<lparr>mode = Net, period = Annual, income = 132000000,
       dependents = 0, insurance = False\<rparr>)
     = 381681663920207733702387999 / 2097152000000000000 \<and>
   Result.gross (resultView \<lparr>mode = Net, period = Annual, income = 132000000,
       dependents = 0, insurance = False\<rparr>)
     = Result.gross (resultView \<lparr>mode = Net, period = Monthly, income = 132000000,
         dependents = 0, insurance = False\<rparr>) \<and>
   solveGrossFromNet_ts (toMonthly_ts 132000000 Annual_ts) 0 False = 11000000 \<and>
   grossMonthly (data 132000000 0 Annual_ts False Net_ts)
     = 127227221306735911234129333 / 8388608000000000000 \<and>
   netMonthly (data 132000000 0 Annual_ts False Net_ts)
     = 2509591892827982313448457327 / 167772160000000000000"
proof -
  have go: "(step_of table_go 132000000 0 False ^^ 20) 132000000
              = 381681663920207733702387999 / 2097152000000000000"
    by (simp add: eval_simps)
  have ts: "(step_of table_ts 132000000 0 False ^^ 20) 132000000
              = 381681663920207733702387999 / 2097152000000000000"
    by (simp add: eval_simps)
  have go11: "(step_of table_go 11000000 0 False ^^ 20) 11000000 = 11000000"
    by (simp add: eval_simps)
  have ts11: "(step_of table_ts 11000000 0 False ^^ 20) 11000000 = 11000000"
    by (simp add: eval_simps)
  show ?thesis
    by (simp add: resultView_gross data_netMonthly data_grossMonthly
          toMonthly_def toMonthly_ts_def solveGrossFromNet_funpow solveGrossFromNet_ts_funpow
          go ts go11 ts11)
       (simp add: eval_simps)
qed

text \<open>
  C6. \<^verbatim>\<open>clampInsuranceBase\<close> returns 0 when insurance is disabled; when enabled it returns
  the minimum of the gross salary and 36,000,000: 36,000,000 above the cap and the gross
  salary itself at or below the cap. Stated for the Go and the TypeScript function.
\<close>

theorem C6_clampInsuranceBase:
  "(\<not> enabled \<longrightarrow> clampInsuranceBase g enabled = 0 \<and> clampInsuranceBase_ts g enabled = 0) \<and>
   (enabled \<longrightarrow> clampInsuranceBase g enabled = min g 36000000 \<and>
                 clampInsuranceBase_ts g enabled = min g 36000000) \<and>
   (enabled \<and> 36000000 < g \<longrightarrow> clampInsuranceBase g enabled = 36000000 \<and>
                 clampInsuranceBase_ts g enabled = 36000000) \<and>
   (enabled \<and> g \<le> 36000000 \<longrightarrow> clampInsuranceBase g enabled = g \<and>
                 clampInsuranceBase_ts g enabled = g)"
  by (simp add: clampInsuranceBase_def clampInsuranceBase_ts_def InsuranceCap_def
        INSURANCE_CAP_def min_def)

text \<open>C6 at a salary above the cap, with and without insurance, and at one below it.\<close>

theorem C6_clampInsuranceBase_witness:
  "clampInsuranceBase 50000000 False = 0 \<and> clampInsuranceBase_ts 50000000 False = 0 \<and>
   (36000000 :: real) < 50000000 \<and>
   clampInsuranceBase 50000000 True = 36000000 \<and> clampInsuranceBase_ts 50000000 True = 36000000 \<and>
   (20000000 :: real) \<le> 36000000 \<and>
   clampInsuranceBase 20000000 True = 20000000 \<and> clampInsuranceBase_ts 20000000 True = 20000000"
  using C6_clampInsuranceBase[of False 50000000] C6_clampInsuranceBase[of True 50000000]
    C6_clampInsuranceBase[of True 20000000]
  by simp

text \<open>
  C7. For every taxable income that is zero or negative, the tax calculation returns an
  empty breakdown and a total tax of 0. Stated for \<^verbatim>\<open>calculateTax\<close> (Go) and
  \<^verbatim>\<open>calculateTaxBreakdown\<close> (TypeScript).
\<close>

theorem C7_nonpositive_income:
  "t \<le> 0 \<Longrightarrow> calculateTax t = ([], 0) \<and> calculateTaxBreakdown t = ([], 0)"
  by (simp add: calculateTax_def TaxBrackets_def calculateTaxBreakdown_def TAX_BRACKETS_def)

text \<open>C7 at a taxable income of 0 and at a negative one.\<close>

theorem C7_nonpositive_income_witness:
  "(0 :: real) \<le> 0 \<and> calculateTax 0 = ([], 0) \<and> calculateTaxBreakdown 0 = ([], 0) \<and>
   (- 2500000 :: real) \<le> 0 \<and> calculateTax (- 2500000) = ([], 0) \<and>
   calculateTaxBreakdown (- 2500000) = ([], 0)"
  using C7_nonpositive_income[of 0] C7_nonpositive_income[of "- 2500000"]
  by simp

text \<open>
  C8. The effective tax rate of \<^verbatim>\<open>data\<close> is the total tax divided by the monthly gross
  salary whenever that salary is positive, and 0 when it is 0; the quotient is never taken
  with a zero divisor, so the rate is always a number.
\<close>

theorem C8_effectiveTaxRate:
  "(0 < grossMonthly (data inc d p on sm) \<longrightarrow>
      effectiveTaxRate (data inc d p on sm) =
        Some (totalTax (data inc d p on sm) / grossMonthly (data inc d p on sm))) \<and>
   (grossMonthly (data inc d p on sm) = 0 \<longrightarrow> effectiveTaxRate (data inc d p on sm) = Some 0) \<and>
   effectiveTaxRate (data inc d p on sm) \<noteq> None"
  by (simp add: data_def Let_def split_beta js_div_def)

text \<open>C8 at a gross salary of 20,000,000 and at a gross salary of 0.\<close>

theorem C8_effectiveTaxRate_witness:
  "0 < grossMonthly (data 20000000 0 Monthly_ts True Gross_ts) \<and>
   totalTax (data 20000000 0 Monthly_ts True Gross_ts) = 440000 \<and>
   effectiveTaxRate (data 20000000 0 Monthly_ts True Gross_ts) = Some (440000 / 20000000) \<and>
   grossMonthly (data 0 0 Monthly_ts True Gross_ts) = 0 \<and>
   effectiveTaxRate (data 0 0 Monthly_ts True Gross_ts) = Some 0"
proof -
  have g: "grossMonthly (data 20000000 0 Monthly_ts True Gross_ts) = 20000000"
    "grossMonthly (data 0 0 Monthly_ts True Gross_ts) = 0"
    by (simp_all add: data_grossMonthly toMonthly_ts_def)
  have t: "totalTax (data 20000000 0 Monthly_ts True Gross_ts) = 440000"
    by (simp add: data_def Let_def split_beta toMonthly_ts_def clampInsuranceBase_ts_def
          INSURANCE_CAP_def sumRates_ts_def EMPLOYEE_INSURANCE_def PERSONAL_DEDUCTION_def
          DEPENDENT_DEDUCTION_def calculateTaxBreakdown_def TAX_BRACKETS_def Math_min_def)
  show ?thesis
    using C8_effectiveTaxRate[of 20000000 0 Monthly_ts True Gross_ts]
      C8_effectiveTaxRate[of 0 0 Monthly_ts True Gross_ts]
    unfolding g t by simp
qed




text \<open>
  C10. For every taxable income the breakdown \<^verbatim>\<open>calculateTax\<close> returns has at most 7
  lines, one for each bracket of the table; the taxable amount of every line is strictly
  positive; and the rates of the lines are the rates of the first brackets of the table,
  in the table's order, which is strictly ascending, with none skipped.
\<close>

theorem C10_breakdown_shape:
  "length (fst (calculateTax t)) \<le> 7 \<and>
   length TaxBrackets = 7 \<and>
   (\<forall>l \<in> set (fst (calculateTax t)). 0 < Taxable l) \<and>
   map TaxBreakdown.Rate (fst (calculateTax t)) =
     take (length (fst (calculateTax t))) (map TaxBracket.Rate TaxBrackets) \<and>
   sorted_wrt (<) (map TaxBracket.Rate TaxBrackets)"
proof -
  have len: "length TaxBrackets = 7" by (simp add: TaxBrackets_def)
  have "length (fst (calculateTax t)) \<le> 7"
    using lines_of_length[of TaxBrackets t] by (simp add: calculateTax_eq len)
  moreover have "\<forall>l \<in> set (fst (calculateTax t)). 0 < Taxable l"
    using lines_of_positive[of TaxBrackets _ t] TaxBrackets_positive
    by (auto simp: calculateTax_eq)
  moreover have "map TaxBreakdown.Rate (fst (calculateTax t)) =
     take (length (fst (calculateTax t))) (map TaxBracket.Rate TaxBrackets)"
    by (simp only: calculateTax_eq fst_conv lines_of_rates[symmetric])
  moreover have "sorted_wrt (<) (map TaxBracket.Rate TaxBrackets)"
    by (simp add: TaxBrackets_def)
  ultimately show ?thesis using len by blast
qed

text \<open>C10 at a taxable income of 6,900,000, which reaches the second bracket.\<close>

theorem C10_breakdown_shape_witness:
  "fst (calculateTax 6900000) =
     [\<lparr>Rate = 5 / 100, Taxable = 5000000, Tax = 250000\<rparr>,
      \<lparr>Rate = 10 / 100, Taxable = 1900000, Tax = 190000\<rparr>] \<and>
   length (fst (calculateTax 6900000)) \<le> 7 \<and>
   (0 :: real) < 5000000 \<and> (0 :: real) < 1900000 \<and>
   map TaxBreakdown.Rate (fst (calculateTax 6900000)) = [5 / 100, 10 / 100] \<and>
   take 2 (map TaxBracket.Rate TaxBrackets) = [5 / 100, 10 / 100]"
proof -
  have e: "fst (calculateTax 6900000) =
     [\<lparr>Rate = 5 / 100, Taxable = 5000000, Tax = 250000\<rparr>,
      \<lparr>Rate = 10 / 100, Taxable = 1900000, Tax = 190000\<rparr>]"
    by (simp add: calculateTax_def TaxBrackets_def min_go_def)
  have t: "take 2 (map TaxBracket.Rate TaxBrackets) = [5 / 100, 10 / 100]"
    by (simp add: TaxBrackets_def)
  show ?thesis using C10_breakdown_shape[of 6900000] t unfolding e by simp
qed

end
